theory Spec2Isabelle
  imports Complex_Main "HOL-Library.Word" "HOL-Library.Code_Target_Numeral"
begin

unbundle bit_operations_syntax

section \<open>Basic types: bytes, float32, time\<close>

type_synonym byte = "8 word"

text \<open>
  A Go \<open>float32\<close> is identified with its IEEE-754 bit pattern: \<open>math.Float32frombits\<close>
  is the constructor and \<open>math.Float32bits\<close> its inverse.
\<close>

datatype float32 = Float32frombits "32 word"

fun Float32bits :: "float32 \<Rightarrow> 32 word" where
  "Float32bits (Float32frombits w) = w"

text \<open>
  The real number denoted by a bit pattern whose exponent field is neither 0 nor 255
  (a normal number): \<open>(-1)^s * 2^(e - 127) * (1 + m / 2^23)\<close>.
\<close>

definition float32_sign :: "float32 \<Rightarrow> nat" where
  "float32_sign f = unat (drop_bit 31 (Float32bits f))"

definition float32_exponent :: "float32 \<Rightarrow> nat" where
  "float32_exponent f = unat (drop_bit 23 (Float32bits f) AND 0xFF)"

definition float32_mantissa :: "float32 \<Rightarrow> nat" where
  "float32_mantissa f = unat (Float32bits f AND 0x7FFFFF)"

definition float32_normal_value :: "float32 \<Rightarrow> real" where
  "float32_normal_value f =
     (if float32_sign f = 0 then 1 else - 1)
       * (if 127 \<le> float32_exponent f then 2 ^ (float32_exponent f - 127)
          else 1 / 2 ^ (127 - float32_exponent f))
       * (1 + real (float32_mantissa f) / 8388608)"

text \<open>
  A \<open>time.Time\<close> is an instant, counted in nanoseconds since the Unix epoch; a
  \<open>time.Duration\<close> is a number of nanoseconds. \<open>Before\<close> is the strict order of instants.
\<close>

type_synonym Time = int
type_synonym Duration = int

definition Second :: Duration where
  "Second = 1000000000"

definition Hour :: Duration where
  "Hour = 3600 * Second"

definition Before :: "Time \<Rightarrow> Time \<Rightarrow> bool" where
  "Before t u = (t < u)"

definition Add :: "Time \<Rightarrow> Duration \<Rightarrow> Time" where
  "Add t d = t + d"

text \<open>
  \<open>time.Unix(sec, 0)\<close> stores \<open>sec + unixToInternal\<close> in an \<open>int64\<close>, an addition that
  wraps around for seconds counts close to the top of the \<open>int64\<close> range.
\<close>

definition wrap_int64 :: "int \<Rightarrow> int" where
  "wrap_int64 n = (n + 2 ^ 63) mod 2 ^ 64 - 2 ^ 63"

definition unixToInternal :: int where
  "unixToInternal = 62135596800"

definition time_Unix :: "int \<Rightarrow> Time" where
  "time_Unix sec = (wrap_int64 (sec + unixToInternal) - unixToInternal) * Second"

section \<open>Standard-library parsing used by the wire decoder\<close>

subsection \<open>strconv.ParseInt(s, 10, 64)\<close>

datatype NumError = ErrSyntax | ErrRange

definition is_digit :: "char \<Rightarrow> bool" where
  "is_digit c = (48 \<le> (of_char c :: nat) \<and> (of_char c :: nat) \<le> 57)"

definition digit_val :: "char \<Rightarrow> nat" where
  "digit_val c = of_char c - 48"

definition maxUint64 :: nat where
  "maxUint64 = 18446744073709551615"

text \<open>
  The digit loop of \<open>strconv.ParseUint\<close> in base 10: a byte that is not a decimal digit is
  a syntax error; an accumulator that would leave the \<open>uint64\<close> range is a range error,
  reported at the digit where it happens.
\<close>

fun ParseUint_loop :: "nat \<Rightarrow> string \<Rightarrow> NumError + nat" where
  "ParseUint_loop n [] = Inr n"
| "ParseUint_loop n (c # cs) =
     (if \<not> is_digit c then Inl ErrSyntax
      else if n \<ge> maxUint64 div 10 + 1 then Inl ErrRange
      else if n * 10 + digit_val c > maxUint64 then Inl ErrRange
      else ParseUint_loop (n * 10 + digit_val c) cs)"

definition ParseUint :: "string \<Rightarrow> NumError + nat" where
  "ParseUint s = (if s = [] then Inl ErrSyntax else ParseUint_loop 0 s)"

definition ParseInt :: "string \<Rightarrow> NumError + int" where
  "ParseInt s =
     (case s of
        [] \<Rightarrow> Inl ErrSyntax
      | c # cs \<Rightarrow>
          (let neg = (c = CHR ''-'');
               body = (if c = CHR ''+'' \<or> c = CHR ''-'' then cs else s)
           in case ParseUint body of
                Inl ErrSyntax \<Rightarrow> Inl ErrSyntax
              | Inl ErrRange \<Rightarrow> Inl ErrRange
              | Inr un \<Rightarrow>
                  if \<not> neg \<and> un \<ge> 2 ^ 63 then Inl ErrRange
                  else if neg \<and> un > 2 ^ 63 then Inl ErrRange
                  else Inr (if neg then - int un else int un)))"

subsection \<open>encoding/json on the two slice types of the record\<close>

text \<open>
  \<open>json.Unmarshal\<close> into a \<open>[]byte\<close> and into a \<open>[]string\<close> is library code. The
  decoder takes both as parameters, so that what is proved of it holds whatever the
  library answers on a given text.
\<close>

datatype json_error = JsonSyntaxError | JsonTypeError | JsonNotModelled

record encoding_json =
  Unmarshal_bytes :: "string \<Rightarrow> json_error + byte list"
  Unmarshal_strings :: "string \<Rightarrow> json_error + string list"

text \<open>
  A concrete instance for the texts of the wire format: a JSON array of decimal integers
  0..255, and a JSON array of strings without escapes, both written without white space.
  Every other text (white space, escapes, base64 strings, \<open>null\<close>) is outside this
  instance and answered \<open>JsonNotModelled\<close>.
\<close>

primrec split_on :: "char \<Rightarrow> string \<Rightarrow> string list" where
  "split_on d [] = [[]]"
| "split_on d (c # cs) =
     (if c = d then [] # split_on d cs
      else (case split_on d cs of [] \<Rightarrow> [[c]] | w # ws \<Rightarrow> (c # w) # ws))"

definition array_items :: "string \<Rightarrow> string list option" where
  "array_items s =
     (case s of
        [] \<Rightarrow> None
      | c # cs \<Rightarrow>
          if c = CHR ''['' \<and> cs \<noteq> [] \<and> last cs = CHR '']''
          then (if butlast cs = [] then Some [] else Some (split_on CHR '','' (butlast cs)))
          else None)"

definition byte_item :: "string \<Rightarrow> byte option" where
  "byte_item w =
     (if w = [] then None
      else if 3 < length w then None
      else if 1 < length w \<and> hd w = CHR ''0'' then None
      else if list_all is_digit w
      then (let n = foldl (\<lambda>a c. a * 10 + digit_val c) 0 w
            in if n \<le> 255 then Some (of_nat n) else None)
      else None)"

definition plain_char :: "char \<Rightarrow> bool" where
  "plain_char c = (32 \<le> (of_char c :: nat) \<and> (of_char c :: nat) < 127
                    \<and> c \<noteq> CHR 0x22 \<and> c \<noteq> CHR 0x5C)"

definition string_item :: "string \<Rightarrow> string option" where
  "string_item w =
     (if 2 \<le> length w \<and> hd w = CHR 0x22 \<and> last w = CHR 0x22
      then (let body = butlast (tl w)
            in if list_all plain_char body then Some body else None)
      else None)"

fun all_items :: "('a \<Rightarrow> 'b option) \<Rightarrow> 'a list \<Rightarrow> 'b list option" where
  "all_items f [] = Some []"
| "all_items f (x # xs) =
     (case f x of
        None \<Rightarrow> None
      | Some y \<Rightarrow> (case all_items f xs of None \<Rightarrow> None | Some ys \<Rightarrow> Some (y # ys)))"

definition wire_Unmarshal_bytes :: "string \<Rightarrow> json_error + byte list" where
  "wire_Unmarshal_bytes s =
     (case array_items s of
        None \<Rightarrow> Inl JsonNotModelled
      | Some ws \<Rightarrow> (case all_items byte_item ws of None \<Rightarrow> Inl JsonNotModelled | Some bs \<Rightarrow> Inr bs))"

definition wire_Unmarshal_strings :: "string \<Rightarrow> json_error + string list" where
  "wire_Unmarshal_strings s =
     (case array_items s of
        None \<Rightarrow> Inl JsonNotModelled
      | Some ws \<Rightarrow> (case all_items string_item ws of None \<Rightarrow> Inl JsonNotModelled | Some bs \<Rightarrow> Inr bs))"

definition wire_json :: encoding_json where
  "wire_json = \<lparr> Unmarshal_bytes = wire_Unmarshal_bytes, Unmarshal_strings = wire_Unmarshal_strings \<rparr>"

section \<open>Wire decoder (package client)\<close>

record 'a Value =
  Value :: 'a
  Processed :: bool

text \<open>The Go zero value of each field: not processed.\<close>

definition zero_Time :: "Time Value" where
  "zero_Time = \<lparr> Value = - unixToInternal * Second, Processed = False \<rparr>"

definition zero_Value :: "float32 Value" where
  "zero_Value = \<lparr> Value = Float32frombits 0, Processed = False \<rparr>"

definition zero_Tags :: "string list Value" where
  "zero_Tags = \<lparr> Value = [], Processed = False \<rparr>"

record DataPoint =
  dp_Time :: "Time Value"
  dp_Value :: "float32 Value"
  dp_Tags :: "string list Value"

definition zero_DataPoint :: DataPoint where
  "zero_DataPoint = \<lparr> dp_Time = zero_Time, dp_Value = zero_Value, dp_Tags = zero_Tags \<rparr>"

text \<open>
  Errors of the decoder and the client. Each constructor is one \<open>errors.New\<close> or
  \<open>fmt.Errorf\<close> of the source; the arguments are the values formatted into the message.
\<close>

datatype error =
    errors_New string
  | ErrParseDataPointTime string NumError
  | ErrUnmarshalDataPointValue string json_error
  | ErrInvalidDataLength nat
  | ErrUnmarshalValue string json_error
  | ErrIndexOutOfRange
  | ErrDecoder json_error
  | ErrDecodeResponseBody error
  | ErrInvalidDatapoint "error option"
  | ErrCreateRequest
  | ErrPerformRequest
  | ErrUnexpectedStatus nat
  | ErrDecodeDatapointBody error
  | ErrGetDatapoint error
  | ErrReadDatapoint error
  | ErrWriteDatapoint
  | ErrExecuteQuery
  | ErrQueryDatapoints error
  | ErrIterTime
  | ErrIterValue

function Itoa :: "nat \<Rightarrow> string" where
  "Itoa n = (if n < 10 then [''0123456789'' ! n] else Itoa (n div 10) @ [''0123456789'' ! (n mod 10)])"
  by pat_completeness auto
termination
  by (relation "measure id") auto

declare Itoa.simps [simp del]

text \<open>The text of the length error, as \<open>fmt.Errorf\<close> formats it with \<open>%d\<close>.\<close>

definition invalid_data_length_message :: "nat \<Rightarrow> string" where
  "invalid_data_length_message n =
     ''invalid data length for DataPointValue, expected 4 bytes, got '' @ Itoa n @ '' bytes''"

text \<open>\<open>DataPoint.IsValid\<close>: time, then value, then tags.\<close>

definition IsValid :: "DataPoint \<Rightarrow> bool \<times> error option" where
  "IsValid dp =
     (if \<not> Processed (dp_Time dp) then (False, Some (errors_New ''time field is not Processed''))
      else if \<not> Processed (dp_Value dp) then (False, Some (errors_New ''value field is not Processed''))
      else if \<not> Processed (dp_Tags dp) then (False, Some (errors_New ''tags field is not Processed''))
      else (True, None))"

text \<open>\<open>Value[[]string].UnmarshalJSON\<close>.\<close>

definition Value_UnmarshalJSON :: "encoding_json \<Rightarrow> string \<Rightarrow> error + string list Value" where
  "Value_UnmarshalJSON js data =
     (case Unmarshal_strings js data of
        Inl e \<Rightarrow> Inl (ErrUnmarshalValue data e)
      | Inr v \<Rightarrow> Inr \<lparr> Value = v, Processed = True \<rparr>)"

text \<open>\<open>DataPointTime.UnmarshalJSON\<close>: the raw bytes of the member's value go to \<open>ParseInt\<close>.\<close>

definition DataPointTime_UnmarshalJSON :: "string \<Rightarrow> error + Time Value" where
  "DataPointTime_UnmarshalJSON data =
     (case ParseInt data of
        Inl e \<Rightarrow> Inl (ErrParseDataPointTime data e)
      | Inr ts \<Rightarrow> Inr \<lparr> Value = time_Unix ts, Processed = True \<rparr>)"

text \<open>\<open>binary.LittleEndian.Uint32\<close>; it panics on fewer than four bytes.\<close>

definition LittleEndian_Uint32 :: "byte list \<Rightarrow> 32 word option" where
  "LittleEndian_Uint32 b =
     (if length b < 4 then None
      else Some (ucast (b ! 0) OR push_bit 8 (ucast (b ! 1))
                 OR push_bit 16 (ucast (b ! 2)) OR push_bit 24 (ucast (b ! 3))))"

text \<open>
  \<open>DataPointValue.UnmarshalJSON\<close>. The number formatted into the length error is
  \<open>len(data)\<close>, the length of the raw text.
\<close>

definition DataPointValue_UnmarshalJSON :: "encoding_json \<Rightarrow> string \<Rightarrow> error + float32 Value" where
  "DataPointValue_UnmarshalJSON js data =
     (case Unmarshal_bytes js data of
        Inl e \<Rightarrow> Inl (ErrUnmarshalDataPointValue data e)
      | Inr b \<Rightarrow>
          if length b \<noteq> 4 then Inl (ErrInvalidDataLength (length data))
          else (case LittleEndian_Uint32 b of
                  None \<Rightarrow> Inl ErrIndexOutOfRange
                | Some bits \<Rightarrow> Inr \<lparr> Value = Float32frombits bits, Processed = True \<rparr>))"

text \<open>The helper of the client's tests that produces the little-endian bytes of a float.\<close>

definition float32ToBytes :: "float32 \<Rightarrow> byte list" where
  "float32ToBytes f =
     (let bits = Float32bits f
      in [ucast (bits AND 0xFF), ucast (drop_bit 8 bits AND 0xFF),
          ucast (drop_bit 16 bits AND 0xFF), ucast (drop_bit 24 bits AND 0xFF)])"

text \<open>
  The body as \<open>json.Decoder.Decode\<close> sees it: either rejected by the JSON scanner, or an
  object whose members are handed, in the order of the text, to the struct field their
  key matches (\<open>KOther\<close>: no field of the struct, the member is skipped). The raw text of
  a member's value is what the field's \<open>UnmarshalJSON\<close> receives.
\<close>

datatype member_key = KTime | KValue | KTags | KOther

datatype body = BodyRejected json_error | BodyObject "(member_key \<times> string) list"

fun decode_members :: "encoding_json \<Rightarrow> (member_key \<times> string) list \<Rightarrow> DataPoint \<Rightarrow> error + DataPoint" where
  "decode_members js [] dp = Inr dp"
| "decode_members js ((KOther, raw) # ms) dp = decode_members js ms dp"
| "decode_members js ((KTime, raw) # ms) dp =
     (case DataPointTime_UnmarshalJSON raw of
        Inl e \<Rightarrow> Inl e
      | Inr t \<Rightarrow> decode_members js ms (dp\<lparr>dp_Time := t\<rparr>))"
| "decode_members js ((KValue, raw) # ms) dp =
     (case DataPointValue_UnmarshalJSON js raw of
        Inl e \<Rightarrow> Inl e
      | Inr v \<Rightarrow> decode_members js ms (dp\<lparr>dp_Value := v\<rparr>))"
| "decode_members js ((KTags, raw) # ms) dp =
     (case Value_UnmarshalJSON js raw of
        Inl e \<Rightarrow> Inl e
      | Inr v \<Rightarrow> decode_members js ms (dp\<lparr>dp_Tags := v\<rparr>))"

definition Decode :: "encoding_json \<Rightarrow> body \<Rightarrow> error + DataPoint" where
  "Decode js b =
     (case b of
        BodyRejected e \<Rightarrow> Inl (ErrDecoder e)
      | BodyObject ms \<Rightarrow> decode_members js ms zero_DataPoint)"

text \<open>\<open>DataServerClient.decodeDatapointBody\<close>.\<close>

definition decodeDatapointBody :: "encoding_json \<Rightarrow> body \<Rightarrow> error + DataPoint" where
  "decodeDatapointBody js b =
     (case Decode js b of
        Inl e \<Rightarrow> Inl (ErrDecodeResponseBody e)
      | Inr datapoint \<Rightarrow>
          (case IsValid datapoint of
             (False, err) \<Rightarrow> Inl (ErrInvalidDatapoint err)
           | (True, err) \<Rightarrow> Inr datapoint))"

text \<open>
  \<open>DataServerClient.DataPoint\<close>. What the transport answers is an input: the request
  could not be built, the round trip failed, or a response with a status code and a body.
\<close>

datatype http_outcome = NewRequestFailed | DoFailed | Response nat body

definition client_DataPoint :: "encoding_json \<Rightarrow> http_outcome \<Rightarrow> error + DataPoint" where
  "client_DataPoint js r =
     (case r of
        NewRequestFailed \<Rightarrow> Inl ErrCreateRequest
      | DoFailed \<Rightarrow> Inl ErrPerformRequest
      | Response code b \<Rightarrow>
          if code \<noteq> 200 then Inl (ErrUnexpectedStatus code)
          else (case decodeDatapointBody js b of
                  Inl e \<Rightarrow> Inl (ErrDecodeDatapointBody e)
                | Inr datapoint \<Rightarrow>
                    (case IsValid datapoint of
                       (False, err) \<Rightarrow> Inl (ErrInvalidDatapoint err)
                     | (True, err) \<Rightarrow> Inr datapoint)))"

section \<open>Storage (packages dto and repository)\<close>

record dto_DataPoint =
  dto_Time :: Time
  dto_Value :: float32
  dto_Tags :: "string list"
  dto_ReceivedAt :: Time

text \<open>
  An \<open>influxdb3.Point\<close> as \<open>NewPoint(measurement, tags, fields, ts)\<close> builds it. The
  fields are a Go \<open>map[string]any\<close>.
\<close>

datatype field_value = FieldFloat32 float32 | FieldStrings "string list" | FieldTime Time

record Point =
  Measurement :: string
  PointTags :: "(string \<times> string) list"
  Fields :: "string \<rightharpoonup> field_value"
  Timestamp :: Time

text \<open>
  The storage client: the batches passed to \<open>WritePoints\<close> so far, oldest first, and
  whether the server refuses a batch (the server is external).
\<close>

record influxdb3_Client =
  WritePoints_calls :: "Point list list"
  WritePoints_refused :: "Point list \<Rightarrow> bool"

definition WritePoints :: "influxdb3_Client \<Rightarrow> Point list \<Rightarrow> bool \<times> influxdb3_Client" where
  "WritePoints client points =
     (\<not> WritePoints_refused client points,
      client\<lparr>WritePoints_calls := WritePoints_calls client @ [points]\<rparr>)"

text \<open>\<open>repository.DataPoint.write\<close>, \<open>Write\<close> and \<open>WriteDiscard\<close>.\<close>

definition repo_write :: "influxdb3_Client \<Rightarrow> dto_DataPoint \<Rightarrow> string \<Rightarrow> error option \<times> influxdb3_Client" where
  "repo_write client point table =
     (case WritePoints client
             [\<lparr> Measurement = table,
                PointTags = [],
                Fields = [''value'' \<mapsto> FieldFloat32 (dto_Value point),
                          ''tags'' \<mapsto> FieldStrings (dto_Tags point),
                          ''received_at'' \<mapsto> FieldTime (dto_ReceivedAt point)],
                Timestamp = dto_Time point \<rparr>] of
        (False, client') \<Rightarrow> (Some ErrWriteDatapoint, client')
      | (True, client') \<Rightarrow> (None, client'))"

definition repo_Write :: "influxdb3_Client \<Rightarrow> dto_DataPoint \<Rightarrow> error option \<times> influxdb3_Client" where
  "repo_Write client point = repo_write client point ''datapoint''"

definition repo_WriteDiscard :: "influxdb3_Client \<Rightarrow> dto_DataPoint \<Rightarrow> error option \<times> influxdb3_Client" where
  "repo_WriteDiscard client point = repo_write client point ''datapoint_discarded''"

section \<open>Collection use case (package usecase)\<close>

text \<open>A \<open>slog\<close> record: the message and its attributes.\<close>

datatype attr_value = AttrString string | AttrTime Time

record log_record =
  log_msg :: string
  log_attrs :: "(string \<times> attr_value) list"

definition usecase_Read :: "encoding_json \<Rightarrow> http_outcome \<Rightarrow> error + DataPoint" where
  "usecase_Read js r =
     (case client_DataPoint js r of
        Inl e \<Rightarrow> Inl (ErrGetDatapoint e)
      | Inr dp \<Rightarrow> Inr dp)"

text \<open>
  The loop over the tags of \<open>Collect\<close>: the tag at which the loop returns, if any.
\<close>

fun blocked_tag :: "string list \<Rightarrow> string option" where
  "blocked_tag [] = None"
| "blocked_tag (v # vs) =
     (if v = ''system'' \<or> v = ''suspect'' then Some v else blocked_tag vs)"

text \<open>
  \<open>DataPointUseCase.Collect\<close>. The clock is read twice on every path: \<open>now_check\<close> is
  the \<open>time.Now()\<close> of the age test, \<open>now_recv\<close> the \<open>time.Now()\<close> that becomes
  \<open>ReceivedAt\<close>. The result is the returned error, the records logged and the storage
  client afterwards.
\<close>

definition Collect ::
  "encoding_json \<Rightarrow> http_outcome \<Rightarrow> Time \<Rightarrow> Time \<Rightarrow> influxdb3_Client
     \<Rightarrow> error option \<times> log_record list \<times> influxdb3_Client" where
  "Collect js r now_check now_recv client =
     (case usecase_Read js r of
        Inl e \<Rightarrow> (Some (ErrReadDatapoint e), [], client)
      | Inr dp \<Rightarrow>
          if Before (Value (dp_Time dp)) (Add now_check (- 1 * Hour))
          then (case repo_WriteDiscard client
                       \<lparr> dto_Time = Value (dp_Time dp), dto_Value = Value (dp_Value dp),
                         dto_Tags = Value (dp_Tags dp), dto_ReceivedAt = now_recv \<rparr> of
                  (err, client') \<Rightarrow>
                    (err,
                     [\<lparr> log_msg = ''Dropping datapoint'',
                        log_attrs = [(''reason'', AttrString ''timestamp too old''),
                                     (''t'', AttrTime (Value (dp_Time dp)))] \<rparr>],
                     client'))
          else (case blocked_tag (Value (dp_Tags dp)) of
                  Some v \<Rightarrow>
                    (case repo_WriteDiscard client
                            \<lparr> dto_Time = Value (dp_Time dp), dto_Value = Value (dp_Value dp),
                              dto_Tags = Value (dp_Tags dp), dto_ReceivedAt = now_recv \<rparr> of
                       (err, client') \<Rightarrow>
                         (err,
                          [\<lparr> log_msg = ''Dropping datapoint'',
                             log_attrs = [(''tag'', AttrString v),
                                          (''t'', AttrTime (Value (dp_Time dp)))] \<rparr>],
                          client'))
                | None \<Rightarrow>
                    (case repo_Write client
                            \<lparr> dto_Time = Value (dp_Time dp), dto_Value = Value (dp_Value dp),
                              dto_Tags = Value (dp_Tags dp), dto_ReceivedAt = now_recv \<rparr> of
                       (err, client') \<Rightarrow> (err, [], client'))))"

section \<open>Range query (package repository)\<close>

text \<open>
  \<open>repository.DataPoint.Query\<close> up to the call of the storage client: the query text and
  its parameters. The \<open>AND\<close> clause is appended whenever \<open>until\<close> is given, whether or not
  a \<open>WHERE\<close> clause was.
\<close>

definition repo_Query_text :: "Time option \<Rightarrow> Time option \<Rightarrow> string \<times> (string \<rightharpoonup> Time)" where
  "repo_Query_text start until =
     (let q0 = (''SELECT * FROM datapoint'', Map.empty);
          q1 = (case start of
                  None \<Rightarrow> q0
                | Some s \<Rightarrow> (fst q0 @ '' WHERE time >= $start'', (snd q0)(''start'' \<mapsto> s)));
          q2 = (case until of
                  None \<Rightarrow> q1
                | Some u \<Rightarrow> (fst q1 @ '' AND time <= $until'', (snd q1)(''until'' \<mapsto> u)))
      in (fst q2 @ '' ORDER BY time DESC'', snd q2))"

section \<open>Query results and the streaming handler (packages iter and http)\<close>

datatype float64 = Float64frombits "64 word"

text \<open>
  A row of the storage iterator is a \<open>map[string]any\<close>; of the dynamic types only
  \<open>time.Time\<close> and \<open>float64\<close> are told apart by \<open>DataPointIter.Value\<close>.
\<close>

datatype any = AnyTime Time | AnyFloat64 float64 | AnyOther

type_synonym row = "string \<rightharpoonup> any"

definition Time_zero :: Time where
  "Time_zero = - unixToInternal * Second"

text \<open>
  What the handler takes from outside the repository: \<open>time.Parse\<close> and \<open>Time.Format\<close>
  with the RFC 3339 layout, the float conversion \<open>float32(val)\<close>, the encoder's
  serialisation of one item (it can refuse a value), and the storage client's answer to a
  query (the rows its iterator yields before \<open>Next\<close> returns false).
\<close>

record DataPointModel =
  Model_Time :: string
  Model_Value :: float32

record externals =
  Parse_RFC3339 :: "string \<Rightarrow> Time option"
  Format_RFC3339 :: "Time \<Rightarrow> string"
  float32_of_float64 :: "float64 \<Rightarrow> float32"
  Marshal :: "DataPointModel \<Rightarrow> string option"
  QueryWithParameters :: "string \<Rightarrow> (string \<rightharpoonup> Time) \<Rightarrow> row list option"

text \<open>\<open>DataPointIter.Value\<close>.\<close>

definition iter_Value :: "externals \<Rightarrow> row \<Rightarrow> error + dto_DataPoint" where
  "iter_Value ext r =
     (case r ''time'' of
        Some (AnyTime t) \<Rightarrow>
          (case r ''value'' of
             Some (AnyFloat64 val) \<Rightarrow>
               Inr \<lparr> dto_Time = t, dto_Value = float32_of_float64 ext val,
                     dto_Tags = [], dto_ReceivedAt = Time_zero \<rparr>
           | _ \<Rightarrow> Inl ErrIterValue)
      | _ \<Rightarrow> Inl ErrIterTime)"

text \<open>
  The response writer: the bytes written so far, the headers, and how many more calls of
  \<open>Write\<close> succeed (\<open>None\<close>: all of them). A failing \<open>Write\<close> is taken to write nothing.
\<close>

record ResponseWriter =
  written :: string
  headers :: "(string \<times> string) list"
  writes_left :: "nat option"

definition w_Write :: "ResponseWriter \<Rightarrow> string \<Rightarrow> bool \<times> ResponseWriter" where
  "w_Write w bs =
     (case writes_left w of
        None \<Rightarrow> (True, w\<lparr>written := written w @ bs\<rparr>)
      | Some 0 \<Rightarrow> (False, w)
      | Some (Suc k) \<Rightarrow> (True, w\<lparr>written := written w @ bs, writes_left := Some k\<rparr>))"

text \<open>\<open>Encode\<close> of the frozen encoder (no trailing newline): serialise, then write.\<close>

definition Encode :: "externals \<Rightarrow> ResponseWriter \<Rightarrow> DataPointModel \<Rightarrow> bool \<times> ResponseWriter" where
  "Encode ext w m =
     (case Marshal ext m of
        None \<Rightarrow> (False, w)
      | Some bs \<Rightarrow> w_Write w bs)"

datatype stream_end = Completed | Aborted

text \<open>
  The loop of \<open>DataPointQuery\<close> over the iterator, with its counter \<open>i\<close> (a Go \<open>int\<close>,
  64 bits): a row whose \<open>Value\<close> fails is skipped by \<open>continue\<close>, before the comma and
  before \<open>i++\<close>.
\<close>

fun stream_rows :: "externals \<Rightarrow> int \<Rightarrow> row list \<Rightarrow> ResponseWriter \<Rightarrow> stream_end \<times> ResponseWriter" where
  "stream_rows ext i [] w = (Completed, w)"
| "stream_rows ext i (r # rs) w =
     (case iter_Value ext r of
        Inl e \<Rightarrow> stream_rows ext i rs w
      | Inr dp \<Rightarrow>
          (case (if i > 0 then w_Write w '','' else (True, w)) of
             (False, w1) \<Rightarrow> (Aborted, w1)
           | (True, w1) \<Rightarrow>
               (case Encode ext w1 \<lparr> Model_Time = Format_RFC3339 ext (dto_Time dp),
                                      Model_Value = dto_Value dp \<rparr> of
                  (False, w2) \<Rightarrow> (Aborted, w2)
                | (True, w2) \<Rightarrow> stream_rows ext (wrap_int64 (i + 1)) rs w2)))"

text \<open>The handler from the header on: bracket, rows, bracket.\<close>

definition stream_array :: "externals \<Rightarrow> row list \<Rightarrow> ResponseWriter \<Rightarrow> stream_end \<times> ResponseWriter" where
  "stream_array ext rows w =
     (case w_Write (w\<lparr>headers := headers w @ [(''Content-Type'', ''application/json'')]\<rparr>) ''['' of
        (False, w1) \<Rightarrow> (Aborted, w1)
      | (True, w1) \<Rightarrow>
          (case stream_rows ext 0 rows w1 of
             (Aborted, w2) \<Rightarrow> (Aborted, w2)
           | (Completed, w2) \<Rightarrow>
               (case w_Write w2 '']'' of
                  (False, w3) \<Rightarrow> (Aborted, w3)
                | (True, w3) \<Rightarrow> (Completed, w3))))"

text \<open>
  \<open>ChiServer.parseTime\<close> and \<open>ChiServer.DataPointQuery\<close>. Of the two error responses
  (status 400 and 500) the model keeps the fixed prefix of the message.
\<close>

datatype parse_error = ErrParseTimeParam

definition parseTime :: "externals \<Rightarrow> string option \<Rightarrow> parse_error + Time option" where
  "parseTime ext timeStr =
     (case timeStr of
        None \<Rightarrow> Inr None
      | Some str \<Rightarrow> (case Parse_RFC3339 ext str of None \<Rightarrow> Inl ErrParseTimeParam | Some t \<Rightarrow> Inr (Some t)))"

datatype handler_result =
    BadRequest string
  | InternalServerError string
  | Streamed stream_end ResponseWriter

definition DataPointQuery ::
  "externals \<Rightarrow> ResponseWriter \<Rightarrow> string option \<Rightarrow> string option \<Rightarrow> handler_result" where
  "DataPointQuery ext w params_Start params_Until =
     (case parseTime ext params_Start of
        Inl e \<Rightarrow> BadRequest ''failed to parse start time''
      | Inr start \<Rightarrow>
          (case parseTime ext params_Until of
             Inl e \<Rightarrow> BadRequest ''failed to parse until time''
           | Inr until \<Rightarrow>
               (case QueryWithParameters ext (fst (repo_Query_text start until))
                                            (snd (repo_Query_text start until)) of
                  None \<Rightarrow> InternalServerError ''failed to query datapoints''
                | Some rows \<Rightarrow>
                    (case stream_array ext rows w of (e, w') \<Rightarrow> Streamed e w'))))"

section \<open>Periodic trigger (package collector)\<close>

text \<open>
  The trigger's fields are references to channels, \<open>sync.Once\<close> values and a context,
  replaced by \<open>reset\<close>; the goroutines that call \<open>Start\<close> and \<open>Stop\<close> and the goroutine
  spawned inside \<open>start\<close> share them. The model is an explicit heap (lists indexed by
  address) and one program counter per goroutine; a schedule says which goroutine takes
  its next atomic step, when a ticker fires, and when a new caller of \<open>Start\<close> or \<open>Stop\<close>
  appears. The task is opaque: a run of it is the pair of events \<open>TaskBegin\<close> (with the
  context it was given) and \<open>TaskEnd\<close>; its error is only logged, on both call sites.
  The interval is taken to be positive (\<open>time.NewTicker\<close> panics otherwise). The ticker
  follows Go 1.23 and later: its channel holds at most one tick, and \<open>ticker.Stop\<close>
  discards a tick not yet received.
\<close>

record chan =
  chan_len :: nat
  chan_cap :: nat
  chan_closed :: bool

record once =
  once_done :: bool
  once_locked :: bool

record ticker =
  ticker_C :: nat
  ticker_stopped :: bool

record PeriodicTrigger =
  stopCh :: nat
  startOnce :: nat
  stopOnce :: nat
  triggerCtx :: nat

datatype event =
    StartCalled
  | StopCalled
  | StopReturned
  | StartReturned
  | TaskBegin nat
  | TaskEnd
  | Panic

text \<open>
  Program counters. A caller of \<open>Start\<close>: at the call; at \<open>startOnce.Do\<close> with the
  \<open>Once\<close> it read; then the lines of \<open>start\<close>. The spawned goroutine: the lines 76 to 84.
  A caller of \<open>Stop\<close>: at the call; at \<open>stopOnce.Do\<close>; the three lines of \<open>stop\<close>; the
  return through \<open>Do\<close>.
\<close>

datatype goroutine =
    AtStart
  | StartDo nat
  | StartBody
  | InitialTask
  | NewTicker
  | SpawnStopper nat nat
  | LoopSelect nat nat
  | LoopTick nat nat
  | LoopTask nat nat
  | StopperEnter nat nat
  | StopperSelect nat nat nat
  | StopperCancel nat nat
  | StopperTickerStop nat nat
  | StopperWaitDone nat
  | AtStop
  | StopDo nat
  | StopSend nat
  | StopClose nat
  | StopReset nat
  | StopUnlock nat
  | Finished
  | Panicked

record world =
  pt :: PeriodicTrigger
  chans :: "chan list"
  onces :: "once list"
  ctxs :: "bool list"
  tickers :: "ticker list"
  goroutines :: "goroutine list"
  trace :: "event list"
  crashed :: bool

definition emit :: "event \<Rightarrow> world \<Rightarrow> world" where
  "emit e w = w\<lparr>trace := trace w @ [e]\<rparr>"

definition goto :: "nat \<Rightarrow> goroutine \<Rightarrow> world \<Rightarrow> world" where
  "goto i g w = w\<lparr>goroutines := (goroutines w)[i := g]\<rparr>"

definition panic :: "nat \<Rightarrow> world \<Rightarrow> world" where
  "panic i w = emit Panic (goto i Panicked (w\<lparr>crashed := True\<rparr>))"

text \<open>A receive is ready when the channel holds a value or is closed.\<close>

definition recv_ready :: "world \<Rightarrow> nat \<Rightarrow> bool" where
  "recv_ready w c = (0 < chan_len (chans w ! c) \<or> chan_closed (chans w ! c))"

definition recv :: "nat \<Rightarrow> world \<Rightarrow> world" where
  "recv c w =
     (if 0 < chan_len (chans w ! c)
      then w\<lparr>chans := (chans w)[c := (chans w ! c)\<lparr>chan_len := chan_len (chans w ! c) - 1\<rparr>]\<rparr>
      else w)"

text \<open>\<open>PeriodicTrigger.reset\<close>: four allocations, four field assignments.\<close>

definition reset :: "world \<Rightarrow> world" where
  "reset w =
     w\<lparr> chans := chans w @ [\<lparr> chan_len = 0, chan_cap = 1, chan_closed = False \<rparr>],
        onces := onces w @ [\<lparr> once_done = False, once_locked = False \<rparr>,
                            \<lparr> once_done = False, once_locked = False \<rparr>],
        ctxs := ctxs w @ [False],
        pt := \<lparr> stopCh = length (chans w),
                startOnce = length (onces w),
                stopOnce = Suc (length (onces w)),
                triggerCtx = length (ctxs w) \<rparr> \<rparr>"

text \<open>\<open>NewPeriodicTrigger\<close>: the struct, then \<open>reset\<close>.\<close>

definition NewPeriodicTrigger :: world where
  "NewPeriodicTrigger =
     reset \<lparr> pt = \<lparr> stopCh = 0, startOnce = 0, stopOnce = 0, triggerCtx = 0 \<rparr>,
             chans = [], onces = [], ctxs = [], tickers = [], goroutines = [],
             trace = [], crashed = False \<rparr>"

text \<open>
  One atomic step of goroutine \<open>i\<close>, which is at \<open>g\<close>; \<open>None\<close> when it is blocked or has
  ended. Fields of the trigger are read when the statement that names them runs.
\<close>

fun step_goroutine :: "nat \<Rightarrow> goroutine \<Rightarrow> world \<Rightarrow> world option" where
  "step_goroutine i AtStart w =
     Some (goto i (StartDo (startOnce (pt w))) (emit StartCalled w))"
| "step_goroutine i (StartDo o1) w =
     (if once_done (onces w ! o1) then Some (goto i Finished (emit StartReturned w))
      else if once_locked (onces w ! o1) then None
      else Some (goto i StartBody (w\<lparr>onces := (onces w)[o1 := (onces w ! o1)\<lparr>once_locked := True\<rparr>]\<rparr>)))"
| "step_goroutine i StartBody w =
     Some (goto i InitialTask (emit (TaskBegin (triggerCtx (pt w))) w))"
| "step_goroutine i InitialTask w =
     Some (goto i NewTicker (emit TaskEnd w))"
| "step_goroutine i NewTicker w =
     Some (goto i (SpawnStopper (length (tickers w)) (Suc (length (chans w))))
            (w\<lparr> chans := chans w @ [\<lparr> chan_len = 0, chan_cap = 1, chan_closed = False \<rparr>,
                                    \<lparr> chan_len = 0, chan_cap = 0, chan_closed = False \<rparr>],
                tickers := tickers w @ [\<lparr> ticker_C = length (chans w), ticker_stopped = False \<rparr>] \<rparr>))"
| "step_goroutine i (SpawnStopper tk doneCh) w =
     Some (goto i (LoopSelect tk doneCh) (w\<lparr>goroutines := goroutines w @ [StopperEnter tk doneCh]\<rparr>))"
| "step_goroutine i (LoopSelect tk doneCh) w =
     (if recv_ready w (ticker_C (tickers w ! tk))
      then Some (goto i (LoopTick tk doneCh) (recv (ticker_C (tickers w ! tk)) w))
      else if recv_ready w doneCh then Some (recv doneCh w)
      else None)"
| "step_goroutine i (LoopTick tk doneCh) w =
     Some (goto i (LoopTask tk doneCh) (emit (TaskBegin (triggerCtx (pt w))) w))"
| "step_goroutine i (LoopTask tk doneCh) w =
     Some (goto i (LoopSelect tk doneCh) (emit TaskEnd w))"
| "step_goroutine i (StopperEnter tk doneCh) w =
     Some (goto i (StopperSelect (stopCh (pt w)) tk doneCh) w)"
| "step_goroutine i (StopperSelect c tk doneCh) w =
     (if recv_ready w c then Some (goto i (StopperCancel tk doneCh) (recv c w)) else None)"
| "step_goroutine i (StopperCancel tk doneCh) w =
     Some (goto i (StopperTickerStop tk doneCh) (w\<lparr>ctxs := (ctxs w)[triggerCtx (pt w) := True]\<rparr>))"
| "step_goroutine i (StopperTickerStop tk doneCh) w =
     Some (goto i (StopperWaitDone doneCh)
            (w\<lparr> tickers := (tickers w)[tk := (tickers w ! tk)\<lparr>ticker_stopped := True\<rparr>],
                chans := (chans w)[ticker_C (tickers w ! tk) :=
                                     (chans w ! ticker_C (tickers w ! tk))\<lparr>chan_len := 0\<rparr>] \<rparr>))"
| "step_goroutine i (StopperWaitDone doneCh) w =
     (if recv_ready w doneCh then Some (goto i Finished (recv doneCh w)) else None)"
| "step_goroutine i AtStop w =
     Some (goto i (StopDo (stopOnce (pt w))) (emit StopCalled w))"
| "step_goroutine i (StopDo o1) w =
     (if once_done (onces w ! o1) then Some (goto i Finished (emit StopReturned w))
      else if once_locked (onces w ! o1) then None
      else Some (goto i (StopSend o1) (w\<lparr>onces := (onces w)[o1 := (onces w ! o1)\<lparr>once_locked := True\<rparr>]\<rparr>)))"
| "step_goroutine i (StopSend o1) w =
     (if chan_closed (chans w ! stopCh (pt w)) then Some (panic i w)
      else if chan_len (chans w ! stopCh (pt w)) < chan_cap (chans w ! stopCh (pt w))
      then Some (goto i (StopClose o1)
                  (w\<lparr>chans := (chans w)[stopCh (pt w) :=
                       (chans w ! stopCh (pt w))\<lparr>chan_len := Suc (chan_len (chans w ! stopCh (pt w)))\<rparr>]\<rparr>))
      else None)"
| "step_goroutine i (StopClose o1) w =
     (if chan_closed (chans w ! stopCh (pt w)) then Some (panic i w)
      else Some (goto i (StopReset o1)
                  (w\<lparr>chans := (chans w)[stopCh (pt w) := (chans w ! stopCh (pt w))\<lparr>chan_closed := True\<rparr>]\<rparr>)))"
| "step_goroutine i (StopReset o1) w =
     Some (goto i (StopUnlock o1) (reset w))"
| "step_goroutine i (StopUnlock o1) w =
     Some (goto i Finished
            (emit StopReturned (w\<lparr>onces := (onces w)[o1 := \<lparr> once_done = True, once_locked = False \<rparr>]\<rparr>)))"
| "step_goroutine i Finished w = None"
| "step_goroutine i Panicked w = None"

text \<open>
  What a schedule is made of: a new goroutine calls \<open>Start\<close> or \<open>Stop\<close>; goroutine \<open>i\<close>
  takes a step; the period of ticker \<open>k\<close> elapses. A ticker that was stopped does not
  fire, and a tick that finds the one-slot channel full is dropped.
\<close>

datatype action = Go_Start | Go_Stop | Run nat | Tick nat

definition step :: "action \<Rightarrow> world \<Rightarrow> world option" where
  "step a w =
     (if crashed w then None
      else (case a of
              Go_Start \<Rightarrow> Some (w\<lparr>goroutines := goroutines w @ [AtStart]\<rparr>)
            | Go_Stop \<Rightarrow> Some (w\<lparr>goroutines := goroutines w @ [AtStop]\<rparr>)
            | Run i \<Rightarrow> (if i < length (goroutines w) then step_goroutine i (goroutines w ! i) w else None)
            | Tick k \<Rightarrow>
                (if k < length (tickers w) \<and> \<not> ticker_stopped (tickers w ! k)
                 then (if chan_len (chans w ! ticker_C (tickers w ! k)) < 1
                       then Some (w\<lparr>chans := (chans w)[ticker_C (tickers w ! k) :=
                                   (chans w ! ticker_C (tickers w ! k))\<lparr>chan_len := 1\<rparr>]\<rparr>)
                       else Some w)
                 else None)))"

fun exec :: "action list \<Rightarrow> world \<Rightarrow> world option" where
  "exec [] w = Some w"
| "exec (a # as) w = (case step a w of None \<Rightarrow> None | Some w' \<Rightarrow> exec as w')"

section \<open>The notions of the design, in its own words\<close>

text \<open>
  The definitions of this section are not translations of code: they state what the design
  document says, and the properties proved below compare the code with them.
\<close>

text \<open>
  Section 4.3: reject as stale a timestamp strictly older than now minus one hour, checked
  first; else reject for a blocked tag; else accept.
\<close>

datatype decision = Accept | Reject string

definition classify :: "Time \<Rightarrow> string list \<Rightarrow> Time \<Rightarrow> decision" where
  "classify ts tags now =
     (if ts < now - Hour then Reject ''stale''
      else if list_ex (\<lambda>t. t = ''system'' \<or> t = ''suspect'') tags then Reject ''blocked-tag''
      else Accept)"

text \<open>
  The table of a decision: accepted points go to \<open>datapoint\<close>, rejected ones to
  \<open>datapoint_discarded\<close>.
\<close>

definition destination :: "decision \<Rightarrow> string" where
  "destination d = (case d of Accept \<Rightarrow> ''datapoint'' | Reject why \<Rightarrow> ''datapoint_discarded'')"

text \<open>
  The record \<open>{timestamp, measurement, tags, received-at}\<close> of a decoded candidate, as a
  point of a table: the producer's timestamp is the point's time, the rest are fields.
\<close>

definition admitted_point :: "string \<Rightarrow> DataPoint \<Rightarrow> Time \<Rightarrow> Point" where
  "admitted_point table dp received_at =
     \<lparr> Measurement = table,
       PointTags = [],
       Fields = [''value'' \<mapsto> FieldFloat32 (Value (dp_Value dp)),
                 ''tags'' \<mapsto> FieldStrings (Value (dp_Tags dp)),
                 ''received_at'' \<mapsto> FieldTime received_at],
       Timestamp = Value (dp_Time dp) \<rparr>"

text \<open>What the audit log says of a decision: nothing on accept, one record on reject.\<close>

definition drop_record :: "decision \<Rightarrow> DataPoint \<Rightarrow> log_record list" where
  "drop_record d dp =
     (case d of
        Accept \<Rightarrow> []
      | Reject why \<Rightarrow>
          [\<lparr> log_msg = ''Dropping datapoint'',
             log_attrs =
               [if why = ''stale'' then (''reason'', AttrString ''timestamp too old'')
                else (''tag'', AttrString (hd (filter (\<lambda>t. t = ''system'' \<or> t = ''suspect'')
                                                  (Value (dp_Tags dp))))),
                (''t'', AttrTime (Value (dp_Time dp)))] \<rparr>])"

text \<open>
  Section 4.1: completeness is verified in the order timestamp, measurement, tags; the
  first field not marked decoded is named.
\<close>

definition first_undecoded :: "DataPoint \<Rightarrow> string option" where
  "first_undecoded dp =
     map_option fst
       (find (\<lambda>(name, decoded). \<not> decoded)
          [(''time'', Processed (dp_Time dp)),
           (''value'', Processed (dp_Value dp)),
           (''tags'', Processed (dp_Tags dp))])"

text \<open>
  The task events of a trace that fall between a return of \<open>Stop\<close> and the next call of
  \<open>Start\<close>; the flag says whether the scan is inside such a stretch.
\<close>

fun task_events_after_stop :: "bool \<Rightarrow> event list \<Rightarrow> event list" where
  "task_events_after_stop quiet [] = []"
| "task_events_after_stop quiet (StopReturned # es) = task_events_after_stop True es"
| "task_events_after_stop quiet (StartCalled # es) = task_events_after_stop False es"
| "task_events_after_stop quiet (TaskBegin c # es) =
     (if quiet then TaskBegin c # task_events_after_stop quiet es else task_events_after_stop quiet es)"
| "task_events_after_stop quiet (TaskEnd # es) =
     (if quiet then TaskEnd # task_events_after_stop quiet es else task_events_after_stop quiet es)"
| "task_events_after_stop quiet (e # es) = task_events_after_stop quiet es"

text \<open>
  The synchronisation state a trigger has right after \<open>reset\<close>: an empty, open stop channel
  of capacity one, two unused \<open>Once\<close> values, a context that is not cancelled.
\<close>

definition fresh :: "world \<Rightarrow> bool" where
  "fresh w =
     (stopCh (pt w) < length (chans w)
      \<and> chans w ! stopCh (pt w) = \<lparr> chan_len = 0, chan_cap = 1, chan_closed = False \<rparr>
      \<and> startOnce (pt w) < length (onces w)
      \<and> stopOnce (pt w) < length (onces w)
      \<and> startOnce (pt w) \<noteq> stopOnce (pt w)
      \<and> onces w ! startOnce (pt w) = \<lparr> once_done = False, once_locked = False \<rparr>
      \<and> onces w ! stopOnce (pt w) = \<lparr> once_done = False, once_locked = False \<rparr>
      \<and> triggerCtx (pt w) < length (ctxs w)
      \<and> \<not> ctxs w ! triggerCtx (pt w))"

text \<open>
  What \<open>Stop\<close> needs to run through: an unused \<open>stopOnce\<close> and room in the open stop
  channel. Nothing here mentions the other goroutines.
\<close>

definition stop_ready :: "world \<Rightarrow> bool" where
  "stop_ready w =
     (stopCh (pt w) < length (chans w)
      \<and> chan_len (chans w ! stopCh (pt w)) < chan_cap (chans w ! stopCh (pt w))
      \<and> chan_closed (chans w ! stopCh (pt w)) = False
      \<and> stopOnce (pt w) < length (onces w)
      \<and> onces w ! stopOnce (pt w) = \<lparr> once_done = False, once_locked = False \<rparr>)"

text \<open>
  A well-formed query of the storage boundary: \<open>SELECT * FROM datapoint\<close>, an optional
  \<open>WHERE\<close> clause of conditions on \<open>time\<close> joined by \<open>AND\<close>, then \<open>ORDER BY time DESC\<close>.
\<close>

definition sql_condition :: "string \<Rightarrow> string \<Rightarrow> string \<Rightarrow> bool" where
  "sql_condition col op par =
     (col = ''time'' \<and> (op = ''>='' \<or> op = ''<='') \<and> (par = ''$start'' \<or> par = ''$until''))"

fun sql_more_conditions :: "string list \<Rightarrow> bool" where
  "sql_more_conditions (kw # col # op # par # rest) =
     (if kw = ''AND'' then sql_condition col op par \<and> sql_more_conditions rest
      else kw # col # op # par # rest = [''ORDER'', ''BY'', ''time'', ''DESC''])"
| "sql_more_conditions ws = False"

definition sql_well_formed :: "string \<Rightarrow> bool" where
  "sql_well_formed q =
     (case split_on CHR '' '' q of
        sel # star # frm # tab # kw # col # op # par # rest \<Rightarrow>
          sel = ''SELECT'' \<and> star = ''*'' \<and> frm = ''FROM'' \<and> tab = ''datapoint''
          \<and> (if kw = ''WHERE'' then sql_condition col op par \<and> sql_more_conditions rest
              else kw # col # op # par # rest = [''ORDER'', ''BY'', ''time'', ''DESC''])
      | _ \<Rightarrow> False)"

text \<open>
  Section 4.5: the rows whose value extraction succeeds, and items separated by commas, a
  comma before every item except the first.
\<close>

fun extracted :: "externals \<Rightarrow> row list \<Rightarrow> dto_DataPoint list" where
  "extracted ext [] = []"
| "extracted ext (r # rs) =
     (case iter_Value ext r of Inl e \<Rightarrow> extracted ext rs | Inr dp \<Rightarrow> dp # extracted ext rs)"

fun comma_separated :: "string list \<Rightarrow> string" where
  "comma_separated [] = []"
| "comma_separated [x] = x"
| "comma_separated (x # y # ys) = x @ '','' @ comma_separated (y # ys)"

definition item_model :: "externals \<Rightarrow> dto_DataPoint \<Rightarrow> DataPointModel" where
  "item_model ext dp = \<lparr> Model_Time = Format_RFC3339 ext (dto_Time dp), Model_Value = dto_Value dp \<rparr>"

section \<open>Concrete inputs\<close>

text \<open>A storage client that has received nothing, on a server that accepts every batch.\<close>

definition idle_client :: influxdb3_Client where
  "idle_client = \<lparr> WritePoints_calls = [], WritePoints_refused = (\<lambda>points. False) \<rparr>"

text \<open>
  The producer's body of the end-to-end scenario, by the raw text of its \<open>time\<close> member;
  the value member holds the little-endian bytes of the float nearest to 3.14.
\<close>

definition producer_body :: "string \<Rightarrow> body" where
  \<open>producer_body time_raw =
     BodyObject [(KTime, time_raw), (KValue, ''[195,245,72,64]''), (KTags, ''["ok"]'')]\<close>

text \<open>
  A schedule of one generation: \<open>Start\<close> runs the first task, creates the ticker and spawns
  the stop listener, which enters its select; a tick arrives and the loop starts a task;
  while it runs, another goroutine calls \<open>Stop\<close>, which returns; the task ends; the ticker,
  not stopped by anyone yet, fires again and the loop starts another task; only then
  does the stop listener run its three statements.
\<close>

definition stop_during_task :: "action list" where
  "stop_during_task =
     [Go_Start, Run 0, Run 0, Run 0, Run 0, Run 0, Run 0,
      Run 1,
      Tick 0, Run 0, Run 0,
      Go_Stop, Run 2, Run 2, Run 2, Run 2, Run 2, Run 2,
      Run 0,
      Tick 0, Run 0, Run 0, Run 0,
      Run 1, Run 1, Run 1]"

text \<open>
  An instance of the handler's externals and a cursor of four rows, the second without a
  \<open>float64\<close> value, for evaluating the streaming loop.
\<close>

definition sample_externals :: externals where
  \<open>sample_externals =
     \<lparr> Parse_RFC3339 = (\<lambda>str. None),
       Format_RFC3339 = (\<lambda>t. if t = 0 then ''1970-01-01T00:00:00Z'' else ''2023-11-14T22:13:20Z''),
       float32_of_float64 = (\<lambda>val. if val = Float64frombits 0 then Float32frombits 0
                                    else Float32frombits 0x3F800000),
       Marshal = (\<lambda>m. Some (''{"time":"'' @ Model_Time m @ ''","value":''
                             @ (if Model_Value m = Float32frombits 0 then ''0'' else ''1'') @ ''}'')),
       QueryWithParameters = (\<lambda>q ps. None) \<rparr>\<close>

definition sample_rows :: "row list" where
  "sample_rows =
     [[''time'' \<mapsto> AnyTime 0, ''value'' \<mapsto> AnyFloat64 (Float64frombits 0)],
      [''time'' \<mapsto> AnyTime 0, ''value'' \<mapsto> AnyOther],
      [''time'' \<mapsto> AnyTime 1700000000000000000, ''value'' \<mapsto> AnyFloat64 (Float64frombits 0x3FF0000000000000)],
      [''time'' \<mapsto> AnyTime 0, ''value'' \<mapsto> AnyFloat64 (Float64frombits 0x3FF0000000000000)]]"

definition blank_writer :: ResponseWriter where
  "blank_writer = \<lparr> written = [], headers = [], writes_left = None \<rparr>"

section \<open>Facts shared by the properties below\<close>

lemmas wire_defs = wire_json_def wire_Unmarshal_bytes_def wire_Unmarshal_strings_def
  array_items_def byte_item_def string_item_def plain_char_def is_digit_def digit_val_def

lemmas time_defs = ParseInt_def ParseUint_def maxUint64_def time_Unix_def wrap_int64_def
  unixToInternal_def Second_def Hour_def Before_def Add_def

lemmas decode_defs = usecase_Read_def client_DataPoint_def decodeDatapointBody_def Decode_def
  DataPointTime_UnmarshalJSON_def DataPointValue_UnmarshalJSON_def Value_UnmarshalJSON_def
  LittleEndian_Uint32_def IsValid_def zero_DataPoint_def zero_Time_def zero_Value_def
  zero_Tags_def

lemmas trigger_defs = step_def emit_def goto_def panic_def recv_ready_def recv_def reset_def
  NewPeriodicTrigger_def

subsection \<open>Bytes and bits\<close>

lemma bit_255_int: "bit (255 :: int) n \<longleftrightarrow> n < 8"
proof -
  have "bit (mask 8 :: int) n \<longleftrightarrow> n < 8"
    by (auto simp add: bit_mask_iff)
  moreover have "(mask 8 :: int) = 255"
    by (simp add: mask_eq_exp_minus_1)
  ultimately show ?thesis by simp
qed

lemma LittleEndian_float32ToBytes:
  "LittleEndian_Uint32 (float32ToBytes (Float32frombits w)) = Some w"
proof -
  have "ucast (ucast (w AND 0xFF) :: byte)
          OR push_bit 8 (ucast (ucast (drop_bit 8 w AND 0xFF) :: byte))
          OR push_bit 16 (ucast (ucast (drop_bit 16 w AND 0xFF) :: byte))
          OR push_bit 24 (ucast (ucast (drop_bit 24 w AND 0xFF) :: byte)) = w" (is "?lhs = w")
  proof (rule bit_word_eqI)
    fix n :: nat
    assume n: "n < LENGTH(32)"
    consider "n < 8" | "8 \<le> n" "n < 16" | "16 \<le> n" "n < 24" | "24 \<le> n" "n < 32"
      using n by fastforce
    then show "bit ?lhs n = bit w n"
      by cases (auto simp add: bit_simps bit_255_int)
  qed
  then show ?thesis
    by (simp add: LittleEndian_Uint32_def float32ToBytes_def Let_def)
qed

lemma length_float32ToBytes: "length (float32ToBytes f) = 4"
  by (simp add: float32ToBytes_def Let_def)

lemma wire_bytes_of_3_14:
  "Unmarshal_bytes wire_json ''[195,245,72,64]'' = Inr (float32ToBytes (Float32frombits 0x4048F5C3))"
  by (simp add: wire_defs float32ToBytes_def)

lemma value_of_3_14:
  "\<bar>float32_normal_value (Float32frombits 0x4048F5C3) - 3.14\<bar> < 1 / 10 ^ 6"
  by (simp add: float32_normal_value_def float32_sign_def float32_exponent_def
      float32_mantissa_def)

subsection \<open>The length error of the measurement field\<close>

lemma DataPointValue_wrong_length:
  "Unmarshal_bytes js data = Inr b \<Longrightarrow> length b \<noteq> 4 \<Longrightarrow>
     DataPointValue_UnmarshalJSON js data = Inl (ErrInvalidDataLength (length data))"
  by (simp add: DataPointValue_UnmarshalJSON_def)

lemma DataPointValue_no_NaN_check:
  "DataPointValue_UnmarshalJSON wire_json ''[0,0,192,127]'' =
     Inr \<lparr> Value = Float32frombits 0x7FC00000, Processed = True \<rparr>"
  by (simp add: DataPointValue_UnmarshalJSON_def LittleEndian_Uint32_def wire_defs)

subsection \<open>Decoding the body\<close>

lemma IsValid_first_undecoded:
  "IsValid dp =
     (case first_undecoded dp of
        None \<Rightarrow> (True, None)
      | Some name \<Rightarrow> (False, Some (errors_New (name @ '' field is not Processed''))))"
  by (simp add: IsValid_def first_undecoded_def)

lemma decode_members_keeps_tags:
  "decode_members js ms dp = Inr dp' \<Longrightarrow> KTags \<notin> fst ` set ms \<Longrightarrow> dp_Tags dp' = dp_Tags dp"
proof (induction js ms dp rule: decode_members.induct)
  case (1 js dp)
  then show ?case by simp
next
  case (2 js raw ms dp)
  then show ?case by simp
next
  case (3 js raw ms dp)
  then show ?case by (auto split: sum.splits)
next
  case (4 js raw ms dp)
  then show ?case by (auto split: sum.splits)
next
  case (5 js raw ms dp)
  then show ?case by simp
qed

lemma decodeDatapointBody_object:
  assumes "decode_members js ms zero_DataPoint = Inr dp"
  shows "decodeDatapointBody js (BodyObject ms) =
           (case first_undecoded dp of
              None \<Rightarrow> Inr dp
            | Some name \<Rightarrow>
                Inl (ErrInvalidDatapoint (Some (errors_New (name @ '' field is not Processed'')))))"
  using assms
  by (simp add: decodeDatapointBody_def Decode_def IsValid_def first_undecoded_def)

lemma Read_quoted_time:
  \<open>usecase_Read wire_json (Response 200 (producer_body ''"1700000000"'')) =
     Inl (ErrGetDatapoint (ErrDecodeDatapointBody (ErrDecodeResponseBody
            (ErrParseDataPointTime ''"1700000000"'' ErrSyntax))))\<close>
  by (simp add: producer_body_def decode_defs time_defs is_digit_def digit_val_def)

lemma Read_bare_time:
  \<open>usecase_Read wire_json (Response 200 (producer_body ''1700000000'')) =
     Inr \<lparr> dp_Time = \<lparr> Value = time_Unix 1700000000, Processed = True \<rparr>,
           dp_Value = \<lparr> Value = Float32frombits 0x4048F5C3, Processed = True \<rparr>,
           dp_Tags = \<lparr> Value = [''ok''], Processed = True \<rparr> \<rparr>\<close>
  by (simp add: producer_body_def decode_defs time_defs wire_defs)

subsection \<open>Admission\<close>

lemma blocked_tag_None:
  "blocked_tag tags = None \<longleftrightarrow> \<not> list_ex (\<lambda>t. t = ''system'' \<or> t = ''suspect'') tags"
  by (induction tags) auto

lemma blocked_tag_Some:
  "blocked_tag tags = Some v \<Longrightarrow> hd (filter (\<lambda>t. t = ''system'' \<or> t = ''suspect'') tags) = v"
  by (induction tags) (auto split: if_splits)

lemma Collect_decoded:
  assumes "usecase_Read js r = Inr dp"
  shows "Collect js r now_check now_recv client =
     (let table = (if Value (dp_Time dp) < now_check - Hour then ''datapoint_discarded''
                   else if blocked_tag (Value (dp_Tags dp)) = None then ''datapoint''
                   else ''datapoint_discarded'');
          p = admitted_point table dp now_recv
      in (if WritePoints_refused client [p] then Some ErrWriteDatapoint else None,
          (if Value (dp_Time dp) < now_check - Hour
           then [\<lparr> log_msg = ''Dropping datapoint'',
                   log_attrs = [(''reason'', AttrString ''timestamp too old''),
                                (''t'', AttrTime (Value (dp_Time dp)))] \<rparr>]
           else (case blocked_tag (Value (dp_Tags dp)) of
                   None \<Rightarrow> []
                 | Some v \<Rightarrow> [\<lparr> log_msg = ''Dropping datapoint'',
                                log_attrs = [(''tag'', AttrString v),
                                             (''t'', AttrTime (Value (dp_Time dp)))] \<rparr>])),
          client\<lparr>WritePoints_calls := WritePoints_calls client @ [[p]]\<rparr>))"
  using assms
  by (simp add: Collect_def Before_def Add_def repo_WriteDiscard_def repo_Write_def
      repo_write_def WritePoints_def admitted_point_def Let_def split: option.splits)

lemma Collect_undecoded:
  "usecase_Read js r = Inl e \<Longrightarrow>
     Collect js r now_check now_recv client = (Some (ErrReadDatapoint e), [], client)"
  by (simp add: Collect_def)

subsection \<open>Streaming\<close>

lemma comma_separated_Cons:
  "comma_separated (x # xs) = x @ concat (map (\<lambda>y. CHR '','' # y) xs)"
  by (induction xs arbitrary: x) simp_all

lemma wrap_int64_id: "- (2 ^ 63) \<le> n \<Longrightarrow> n < 2 ^ 63 \<Longrightarrow> wrap_int64 n = n"
  by (simp add: wrap_int64_def)

lemma w_Write_unlimited:
  "writes_left w = None \<Longrightarrow> w_Write w bs = (True, w\<lparr>written := written w @ bs\<rparr>)"
  by (simp add: w_Write_def)

lemma stream_rows_unlimited:
  assumes "writes_left w = None" and "0 \<le> i"
    and "i + int (length (extracted ext rows)) < 2 ^ 63"
    and "map (\<lambda>dp. Marshal ext (item_model ext dp)) (extracted ext rows) = map Some items"
  shows "stream_rows ext i rows w =
           (Completed, w\<lparr>written := written w @
              (if 0 < i then concat (map (\<lambda>y. CHR '','' # y) items) else comma_separated items)\<rparr>)"
  using assms
proof (induction rows arbitrary: i w items)
  case Nil
  then show ?case by simp
next
  case (Cons r rows)
  show ?case
  proof (cases "iter_Value ext r")
    case (Inl e)
    with Cons.prems have "stream_rows ext i rows w =
           (Completed, w\<lparr>written := written w @
              (if 0 < i then concat (map (\<lambda>y. CHR '','' # y) items) else comma_separated items)\<rparr>)"
      by (intro Cons.IH) simp_all
    with Inl show ?thesis by simp
  next
    case (Inr dp)
    with Cons.prems(4) obtain x items' where items: "items = x # items'"
      and x: "Marshal ext (item_model ext dp) = Some x"
      and rest: "map (\<lambda>dp. Marshal ext (item_model ext dp)) (extracted ext rows) = map Some items'"
      by (cases items) auto
    define w1 where "w1 = (if 0 < i then w\<lparr>written := written w @ '',''\<rparr> else w)"
    define w2 where "w2 = w1\<lparr>written := written w1 @ x\<rparr>"
    have left: "writes_left w2 = None"
      using Cons.prems(1) by (simp add: w1_def w2_def)
    have bound: "i + 1 + int (length (extracted ext rows)) < 2 ^ 63"
      using Cons.prems(3) Inr by simp
    have wrap: "wrap_int64 (i + 1) = i + 1"
      using Cons.prems(2) bound by (intro wrap_int64_id) linarith+
    have "stream_rows ext (i + 1) rows w2 =
           (Completed, w2\<lparr>written := written w2 @
              (if 0 < i + 1 then concat (map (\<lambda>y. CHR '','' # y) items')
               else comma_separated items')\<rparr>)"
      using left Cons.prems(2) bound rest by (intro Cons.IH) simp_all
    then have tail: "stream_rows ext (i + 1) rows w2 =
           (Completed, w2\<lparr>written := written w2 @ concat (map (\<lambda>y. CHR '','' # y) items')\<rparr>)"
      using Cons.prems(2) by simp
    have "stream_rows ext i (r # rows) w = stream_rows ext (i + 1) rows w2"
      using Inr x Cons.prems(1) wrap
      by (simp add: w1_def w2_def Encode_def w_Write_unlimited item_model_def)
    with tail show ?thesis
      by (simp add: items w1_def w2_def comma_separated_Cons)
  qed
qed

lemma extracted_sample_rows:
  "extracted sample_externals sample_rows =
     [\<lparr> dto_Time = 0, dto_Value = Float32frombits 0, dto_Tags = [], dto_ReceivedAt = Time_zero \<rparr>,
      \<lparr> dto_Time = 1700000000000000000, dto_Value = Float32frombits 0x3F800000, dto_Tags = [],
        dto_ReceivedAt = Time_zero \<rparr>,
      \<lparr> dto_Time = 0, dto_Value = Float32frombits 0x3F800000, dto_Tags = [],
        dto_ReceivedAt = Time_zero \<rparr>]"
  by (simp add: sample_rows_def sample_externals_def iter_Value_def)

subsection \<open>The query text\<close>

lemma Query_text_well_formed_otherwise:
  "sql_well_formed (fst (repo_Query_text None None))"
  "sql_well_formed (fst (repo_Query_text (Some s) None))"
  "sql_well_formed (fst (repo_Query_text (Some s) (Some u)))"
  by (simp_all add: repo_Query_text_def sql_well_formed_def sql_condition_def)

subsection \<open>The trigger\<close>

lemma stop_during_task_final:
  "exec stop_during_task NewPeriodicTrigger =
     Some \<lparr> pt = \<lparr> stopCh = 3, startOnce = 2, stopOnce = 3, triggerCtx = 1 \<rparr>,
            chans = [\<lparr> chan_len = 0, chan_cap = 1, chan_closed = True \<rparr>,
                     \<lparr> chan_len = 0, chan_cap = 1, chan_closed = False \<rparr>,
                     \<lparr> chan_len = 0, chan_cap = 0, chan_closed = False \<rparr>,
                     \<lparr> chan_len = 0, chan_cap = 1, chan_closed = False \<rparr>],
            onces = [\<lparr> once_done = False, once_locked = True \<rparr>,
                     \<lparr> once_done = True, once_locked = False \<rparr>,
                     \<lparr> once_done = False, once_locked = False \<rparr>,
                     \<lparr> once_done = False, once_locked = False \<rparr>],
            ctxs = [False, True],
            tickers = [\<lparr> ticker_C = 1, ticker_stopped = True \<rparr>],
            goroutines = [LoopSelect 0 2, StopperWaitDone 2, Finished],
            trace = [StartCalled, TaskBegin 0, TaskEnd, TaskBegin 0, StopCalled, StopReturned,
                     TaskEnd, TaskBegin 1, TaskEnd],
            crashed = False \<rparr>"
  by (simp add: stop_during_task_def trigger_defs)

lemma stop_during_task_stuck:
  "exec (stop_during_task @ [Run 0]) NewPeriodicTrigger = None"
  "exec (stop_during_task @ [Run 1]) NewPeriodicTrigger = None"
  "exec (stop_during_task @ [Run 2]) NewPeriodicTrigger = None"
  "exec (stop_during_task @ [Tick 0]) NewPeriodicTrigger = None"
  by (simp_all add: stop_during_task_def trigger_defs)

text \<open>
  \<open>Stop\<close> runs from its call to its return without a step of any other goroutine, and
  in these steps no context is cancelled and no ticker is stopped: both are left to the
  listener goroutine.
\<close>

lemma Stop_runs_alone:
  assumes "stop_ready w" and "\<not> crashed w"
  shows "\<exists>w'. exec (Go_Stop # replicate 6 (Run (length (goroutines w)))) w = Some w'
           \<and> goroutines w' = goroutines w @ [Finished]
           \<and> trace w' = trace w @ [StopCalled, StopReturned]
           \<and> ctxs w' = ctxs w @ [False]
           \<and> tickers w' = tickers w"
  using assms
  by (simp add: trigger_defs stop_ready_def numeral_eq_Suc nth_append list_update_append)

lemma fresh_NewPeriodicTrigger: "fresh NewPeriodicTrigger \<and> \<not> crashed NewPeriodicTrigger"
  by (simp add: fresh_def NewPeriodicTrigger_def reset_def)

section \<open>The claims\<close>

text \<open>
  Claim C1. For every started generation the first \<open>Stop\<close> signals the loop, cancels the
  task context, stops the timer, waits for the loop and any task in flight to end, then
  reinitializes; so no task runs between the return of \<open>Stop\<close> and the next \<open>Start\<close>.
  The code does not do this: \<open>stop\<close> is a buffered send, a close and \<open>reset\<close>, and waits for
  nothing. On the schedule \<open>stop_during_task\<close>, \<open>Stop\<close> returns while a task is running;
  that task ends and another one begins before any \<open>Start\<close>; the loop goroutine is left in
  its select, the listener at its receive from the channel nobody closes; and the context
  that gets cancelled is the one \<open>reset\<close> has just created, not the one of the generation
  that was stopped.
\<close>

theorem Stop_returns_without_waiting:
  "map_option trace (exec stop_during_task NewPeriodicTrigger) =
     Some [StartCalled, TaskBegin 0, TaskEnd, TaskBegin 0, StopCalled, StopReturned,
           TaskEnd, TaskBegin 1, TaskEnd]
   \<and> map_option (\<lambda>w. task_events_after_stop False (trace w)) (exec stop_during_task NewPeriodicTrigger) =
     Some [TaskEnd, TaskBegin 1, TaskEnd]
   \<and> map_option goroutines (exec stop_during_task NewPeriodicTrigger) =
     Some [LoopSelect 0 2, StopperWaitDone 2, Finished]
   \<and> map_option ctxs (exec stop_during_task NewPeriodicTrigger) = Some [False, True]"
  by (simp add: stop_during_task_final)

text \<open>
  Claim C2, as stated: for the body \<open>{"time":"1700000000","value":[195,245,72,64],"tags":["ok"]}\<close>,
  the time being a string, one \<open>Collect\<close> performs exactly one write, to the accepted table.
  It does not: \<open>DataPointTime.UnmarshalJSON\<close> hands the raw text of the member, quotes
  included, to \<open>ParseInt\<close>, which rejects it; \<open>Collect\<close> returns the error and writes nothing.
\<close>

theorem Collect_quoted_time_counterexample:
  \<open>WritePoints_calls (snd (snd
      (Collect wire_json (Response 200 (producer_body ''"1700000000"''))
         (time_Unix 1700000001) (time_Unix 1700000001) idle_client))) = []
   \<and> fst (Collect wire_json (Response 200 (producer_body ''"1700000000"''))
         (time_Unix 1700000001) (time_Unix 1700000001) idle_client) =
     Some (ErrReadDatapoint (ErrGetDatapoint (ErrDecodeDatapointBody (ErrDecodeResponseBody
             (ErrParseDataPointTime ''"1700000000"'' ErrSyntax)))))\<close>
  by (simp add: Collect_undecoded [OF Read_quoted_time] idle_client_def)

text \<open>
  Claim C2, amended: for the body \<open>{"time":1700000000,"value":[195,245,72,64],"tags":["ok"]}\<close>,
  the time being a bare integer literal, and a clock within one hour of that timestamp,
  one \<open>Collect\<close> performs exactly one write, to the table of accepted points, carrying the
  float whose little-endian bytes are 195, 245, 72, 64 (within \<open>10^-6\<close> of 3.14), the tags
  \<open>["ok"]\<close> and the producer's timestamp.
\<close>

theorem Collect_end_to_end:
  assumes "\<bar>now_check - time_Unix 1700000000\<bar> \<le> Hour"
  shows \<open>Collect wire_json (Response 200 (producer_body ''1700000000'')) now_check now_recv client =
           (if WritePoints_refused client
                 [\<lparr> Measurement = ''datapoint'', PointTags = [],
                    Fields = [''value'' \<mapsto> FieldFloat32 (Float32frombits 0x4048F5C3),
                              ''tags'' \<mapsto> FieldStrings [''ok''],
                              ''received_at'' \<mapsto> FieldTime now_recv],
                    Timestamp = time_Unix 1700000000 \<rparr>]
            then Some ErrWriteDatapoint else None,
            [],
            client\<lparr>WritePoints_calls := WritePoints_calls client @
               [[\<lparr> Measurement = ''datapoint'', PointTags = [],
                   Fields = [''value'' \<mapsto> FieldFloat32 (Float32frombits 0x4048F5C3),
                             ''tags'' \<mapsto> FieldStrings [''ok''],
                             ''received_at'' \<mapsto> FieldTime now_recv],
                   Timestamp = time_Unix 1700000000 \<rparr>]]\<rparr>)
         \<and> float32ToBytes (Float32frombits 0x4048F5C3) = [195, 245, 72, 64]
         \<and> \<bar>float32_normal_value (Float32frombits 0x4048F5C3) - 3.14\<bar> < 1 / 10 ^ 6\<close>
proof -
  have fresh_enough: "\<not> time_Unix 1700000000 < now_check - Hour"
    using assms by linarith
  have "float32ToBytes (Float32frombits 0x4048F5C3) = [195, 245, 72, 64]"
    by (simp add: float32ToBytes_def)
  then show ?thesis
    using fresh_enough value_of_3_14
    by (simp add: Collect_decoded [OF Read_bare_time] admitted_point_def Let_def)
qed

theorem Collect_end_to_end_witness:
  \<open>\<bar>time_Unix 1700000600 - time_Unix 1700000000\<bar> \<le> Hour
   \<and> Collect wire_json (Response 200 (producer_body ''1700000000''))
        (time_Unix 1700000600) (time_Unix 1700000601) idle_client =
       (None, [],
        \<lparr> WritePoints_calls =
            [[\<lparr> Measurement = ''datapoint'', PointTags = [],
                Fields = [''value'' \<mapsto> FieldFloat32 (Float32frombits 0x4048F5C3),
                          ''tags'' \<mapsto> FieldStrings [''ok''],
                          ''received_at'' \<mapsto> FieldTime (time_Unix 1700000601)],
                Timestamp = time_Unix 1700000000 \<rparr>]],
          WritePoints_refused = (\<lambda>points. False) \<rparr>)\<close>
proof -
  have near: "\<bar>time_Unix 1700000600 - time_Unix 1700000000\<bar> \<le> Hour"
    by (simp add: time_defs)
  from Collect_end_to_end [OF near, of "time_Unix 1700000601" idle_client] near
  show ?thesis
    by (simp add: idle_client_def)
qed

text \<open>
  Claim C3. When the decoded byte array of the measurement field has a length \<open>n\<close> other
  than 4, decoding fails with an error whose message reports \<open>n\<close>. The code fails as it
  should but formats \<open>len(data)\<close>, the length of the raw JSON text, into the message: for
  the three bytes \<open>[1,2,3]\<close> the message says 7.
\<close>

theorem DataPointValue_length_error_reports_text_length:
  "Unmarshal_bytes wire_json ''[1,2,3]'' = Inr [1, 2, 3]
   \<and> DataPointValue_UnmarshalJSON wire_json ''[1,2,3]'' = Inl (ErrInvalidDataLength 7)
   \<and> invalid_data_length_message 7 =
       ''invalid data length for DataPointValue, expected 4 bytes, got 7 bytes''"
  by (simp add: DataPointValue_UnmarshalJSON_def wire_defs invalid_data_length_message_def
      Itoa.simps)

text \<open>
  Claim C4. For every combination of present or absent \<open>start\<close> and \<open>until\<close>, the query issued
  to storage is well-formed, and a request supplying only \<open>until\<close> succeeds. With \<open>until\<close>
  alone the code issues a text that has an \<open>AND\<close> clause and no \<open>WHERE\<close> clause.
\<close>

theorem Query_until_only_is_malformed:
  "fst (repo_Query_text None (Some u)) =
     ''SELECT * FROM datapoint AND time <= $until ORDER BY time DESC''
   \<and> \<not> sql_well_formed (fst (repo_Query_text None (Some u)))
   \<and> dom (snd (repo_Query_text None (Some u))) = {''until''}"
  by (simp add: repo_Query_text_def sql_well_formed_def)

text \<open>
  Claim C5. For every successfully decoded record, classification rejects as stale a
  timestamp strictly older than now minus one hour, whatever the tags; otherwise rejects
  for a blocked tag when some tag equals \<open>system\<close> or \<open>suspect\<close>, the first such tag in the
  given order being the one reported; otherwise accepts. Every classification performs
  exactly one write, to the table of its decision, with received-at read from the clock.
\<close>

theorem Collect_admission:
  assumes "usecase_Read js r = Inr dp"
  shows "Collect js r now_check now_recv client =
           (if WritePoints_refused client
                 [admitted_point
                    (destination (classify (Value (dp_Time dp)) (Value (dp_Tags dp)) now_check))
                    dp now_recv]
            then Some ErrWriteDatapoint else None,
            drop_record (classify (Value (dp_Time dp)) (Value (dp_Tags dp)) now_check) dp,
            client\<lparr>WritePoints_calls := WritePoints_calls client @
               [[admitted_point
                   (destination (classify (Value (dp_Time dp)) (Value (dp_Tags dp)) now_check))
                   dp now_recv]]\<rparr>)"
proof (cases "Value (dp_Time dp) < now_check - Hour")
  case True
  then show ?thesis
    by (simp add: Collect_decoded [OF assms] classify_def destination_def drop_record_def Let_def)
next
  case False
  show ?thesis
  proof (cases "blocked_tag (Value (dp_Tags dp))")
    case None
    with False show ?thesis
      using blocked_tag_None [of "Value (dp_Tags dp)"]
      by (simp add: Collect_decoded [OF assms] classify_def destination_def drop_record_def Let_def)
  next
    case (Some v)
    with False show ?thesis
      using blocked_tag_None [of "Value (dp_Tags dp)"] blocked_tag_Some [OF Some]
      by (simp add: Collect_decoded [OF assms] classify_def destination_def drop_record_def Let_def)
  qed
qed

theorem Collect_admission_witness:
  \<open>usecase_Read wire_json
      (Response 200 (BodyObject [(KTime, ''1700000000''), (KValue, ''[195,245,72,64]''),
                                 (KTags, ''["ok","suspect","system"]'')])) =
     Inr \<lparr> dp_Time = \<lparr> Value = time_Unix 1700000000, Processed = True \<rparr>,
           dp_Value = \<lparr> Value = Float32frombits 0x4048F5C3, Processed = True \<rparr>,
           dp_Tags = \<lparr> Value = [''ok'', ''suspect'', ''system''], Processed = True \<rparr> \<rparr>
   \<and> Collect wire_json
      (Response 200 (BodyObject [(KTime, ''1700000000''), (KValue, ''[195,245,72,64]''),
                                 (KTags, ''["ok","suspect","system"]'')]))
      (time_Unix 1700000600) (time_Unix 1700000601) idle_client =
     (None,
      [\<lparr> log_msg = ''Dropping datapoint'',
         log_attrs = [(''tag'', AttrString ''suspect''), (''t'', AttrTime (time_Unix 1700000000))] \<rparr>],
      \<lparr> WritePoints_calls =
          [[\<lparr> Measurement = ''datapoint_discarded'', PointTags = [],
              Fields = [''value'' \<mapsto> FieldFloat32 (Float32frombits 0x4048F5C3),
                        ''tags'' \<mapsto> FieldStrings [''ok'', ''suspect'', ''system''],
                        ''received_at'' \<mapsto> FieldTime (time_Unix 1700000601)],
              Timestamp = time_Unix 1700000000 \<rparr>]],
        WritePoints_refused = (\<lambda>points. False) \<rparr>)\<close>
proof -
  have read: \<open>usecase_Read wire_json
      (Response 200 (BodyObject [(KTime, ''1700000000''), (KValue, ''[195,245,72,64]''),
                                 (KTags, ''["ok","suspect","system"]'')])) =
     Inr \<lparr> dp_Time = \<lparr> Value = time_Unix 1700000000, Processed = True \<rparr>,
           dp_Value = \<lparr> Value = Float32frombits 0x4048F5C3, Processed = True \<rparr>,
           dp_Tags = \<lparr> Value = [''ok'', ''suspect'', ''system''], Processed = True \<rparr> \<rparr>\<close>
    by (simp add: decode_defs time_defs wire_defs)
  have "\<not> time_Unix 1700000000 < time_Unix 1700000600 - Hour"
    by (simp add: time_defs)
  with Collect_admission [OF read, of "time_Unix 1700000600" "time_Unix 1700000601" idle_client] read
  show ?thesis
    by (simp add: classify_def destination_def drop_record_def admitted_point_def idle_client_def)
qed

text \<open>
  Claim C6. After structural decoding, completeness is verified in the order timestamp,
  measurement, tags, and the first field not marked decoded gives the error naming it; in
  particular a record with decoded timestamp and measurement and no tags member fails
  naming \<open>tags\<close>.
\<close>

theorem completeness_order:
  "IsValid dp =
     (case first_undecoded dp of
        None \<Rightarrow> (True, None)
      | Some name \<Rightarrow> (False, Some (errors_New (name @ '' field is not Processed''))))
   \<and> (decode_members js ms zero_DataPoint = Inr dp' \<longrightarrow>
        decodeDatapointBody js (BodyObject ms) =
          (case first_undecoded dp' of
             None \<Rightarrow> Inr dp'
           | Some name \<Rightarrow>
               Inl (ErrInvalidDatapoint (Some (errors_New (name @ '' field is not Processed''))))))
   \<and> (decode_members js ms zero_DataPoint = Inr dp' \<longrightarrow>
        Processed (dp_Time dp') \<longrightarrow> Processed (dp_Value dp') \<longrightarrow> KTags \<notin> fst ` set ms \<longrightarrow>
        decodeDatapointBody js (BodyObject ms) =
          Inl (ErrInvalidDatapoint (Some (errors_New ''tags field is not Processed''))))"
proof (intro conjI impI)
  show "IsValid dp =
     (case first_undecoded dp of
        None \<Rightarrow> (True, None)
      | Some name \<Rightarrow> (False, Some (errors_New (name @ '' field is not Processed''))))"
    by (rule IsValid_first_undecoded)
next
  assume "decode_members js ms zero_DataPoint = Inr dp'"
  then show "decodeDatapointBody js (BodyObject ms) =
          (case first_undecoded dp' of
             None \<Rightarrow> Inr dp'
           | Some name \<Rightarrow>
               Inl (ErrInvalidDatapoint (Some (errors_New (name @ '' field is not Processed'')))))"
    by (rule decodeDatapointBody_object)
next
  assume dec: "decode_members js ms zero_DataPoint = Inr dp'"
    and t: "Processed (dp_Time dp')" and v: "Processed (dp_Value dp')"
    and no_tags: "KTags \<notin> fst ` set ms"
  have "dp_Tags dp' = zero_Tags"
    using decode_members_keeps_tags [OF dec no_tags] by (simp add: zero_DataPoint_def)
  then have "first_undecoded dp' = Some ''tags''"
    using t v by (simp add: first_undecoded_def zero_Tags_def)
  then show "decodeDatapointBody js (BodyObject ms) =
          Inl (ErrInvalidDatapoint (Some (errors_New ''tags field is not Processed'')))"
    using decodeDatapointBody_object [OF dec] by simp
qed

theorem completeness_order_witness:
  "decode_members wire_json [(KTime, ''1700000000''), (KValue, ''[195,245,72,64]'')] zero_DataPoint =
     Inr \<lparr> dp_Time = \<lparr> Value = time_Unix 1700000000, Processed = True \<rparr>,
           dp_Value = \<lparr> Value = Float32frombits 0x4048F5C3, Processed = True \<rparr>,
           dp_Tags = zero_Tags \<rparr>
   \<and> KTags \<notin> fst ` set [(KTime, ''1700000000''), (KValue, ''[195,245,72,64]'')]
   \<and> decodeDatapointBody wire_json
        (BodyObject [(KTime, ''1700000000''), (KValue, ''[195,245,72,64]'')]) =
       Inl (ErrInvalidDatapoint (Some (errors_New ''tags field is not Processed'')))"
proof -
  let ?ms = "[(KTime, ''1700000000''), (KValue, ''[195,245,72,64]'')]"
  let ?dp = "\<lparr> dp_Time = \<lparr> Value = time_Unix 1700000000, Processed = True \<rparr>,
               dp_Value = \<lparr> Value = Float32frombits 0x4048F5C3, Processed = True \<rparr>,
               dp_Tags = zero_Tags \<rparr>"
  have dec: "decode_members wire_json ?ms zero_DataPoint = Inr ?dp"
    by (simp add: decode_defs time_defs wire_defs)
  have no_tags: "KTags \<notin> fst ` set ?ms"
    by simp
  have decoded: "Processed (dp_Time ?dp)" "Processed (dp_Value ?dp)"
    by simp_all
  from completeness_order [of ?dp wire_json ?ms ?dp]
  have "decode_members wire_json ?ms zero_DataPoint = Inr ?dp \<longrightarrow>
        Processed (dp_Time ?dp) \<longrightarrow> Processed (dp_Value ?dp) \<longrightarrow> KTags \<notin> fst ` set ?ms \<longrightarrow>
        decodeDatapointBody wire_json (BodyObject ?ms) =
          Inl (ErrInvalidDatapoint (Some (errors_New ''tags field is not Processed'')))"
    by (rule conjunct2 [THEN conjunct2])
  with dec decoded no_tags
  have "decodeDatapointBody wire_json (BodyObject ?ms) =
          Inl (ErrInvalidDatapoint (Some (errors_New ''tags field is not Processed'')))"
    by blast
  with dec no_tags show ?thesis
    by blast
qed

text \<open>
  Claim C7. For every 32-bit float \<open>f\<close>, decoding the measurement field from the four
  little-endian bytes of \<open>f\<close> yields \<open>f\<close>, bit for bit; no bit pattern is refused, so no
  NaN or range check is applied.
\<close>

theorem DataPointValue_round_trip:
  "Unmarshal_bytes js data = Inr (float32ToBytes f) \<Longrightarrow>
     DataPointValue_UnmarshalJSON js data = Inr \<lparr> Value = f, Processed = True \<rparr>"
  by (cases f)
    (simp add: DataPointValue_UnmarshalJSON_def LittleEndian_float32ToBytes length_float32ToBytes)

theorem DataPointValue_round_trip_witness:
  "Unmarshal_bytes wire_json ''[195,245,72,64]'' = Inr (float32ToBytes (Float32frombits 0x4048F5C3))
   \<and> DataPointValue_UnmarshalJSON wire_json ''[195,245,72,64]'' =
       Inr \<lparr> Value = Float32frombits 0x4048F5C3, Processed = True \<rparr>"
  using DataPointValue_round_trip [OF wire_bytes_of_3_14] wire_bytes_of_3_14
  by simp

text \<open>
  Claim C8. The streamed body is an opening bracket, the serialized items of exactly the
  rows whose value extraction succeeded, in cursor order, a comma before every item but
  the first, and a closing bracket; an empty cursor gives \<open>[]\<close>. This is the run in which
  no write fails and the encoder serializes every extracted row, for cursors of fewer than
  \<open>2^63\<close> extracted rows (the counter is a 64-bit \<open>int\<close>).
\<close>

theorem stream_array_body:
  assumes "writes_left w = None"
    and "length (extracted ext rows) < 2 ^ 63"
    and "map (\<lambda>dp. Marshal ext (item_model ext dp)) (extracted ext rows) = map Some items"
  shows "stream_array ext rows w =
           (Completed,
            w\<lparr> headers := headers w @ [(''Content-Type'', ''application/json'')],
               written := written w @ ''['' @ comma_separated items @ '']'' \<rparr>)"
proof -
  define w0 where "w0 = w\<lparr>headers := headers w @ [(''Content-Type'', ''application/json'')]\<rparr>"
  define w1 where "w1 = w0\<lparr>written := written w0 @ ''[''\<rparr>"
  have "writes_left w1 = None"
    using assms(1) by (simp add: w0_def w1_def)
  moreover have "(0::int) + int (length (extracted ext rows)) < 2 ^ 63"
    using assms(2) by simp
  ultimately have "stream_rows ext 0 rows w1 =
      (Completed, w1\<lparr>written := written w1 @
         (if (0::int) < 0 then concat (map (\<lambda>y. CHR '','' # y) items) else comma_separated items)\<rparr>)"
    using assms(3) by (intro stream_rows_unlimited) simp_all
  then show ?thesis
    using assms(1) by (simp add: stream_array_def w_Write_unlimited w0_def w1_def)
qed

theorem stream_array_body_witness:
  \<open>stream_array sample_externals sample_rows blank_writer =
     (Completed,
      \<lparr> written = ''[{"time":"1970-01-01T00:00:00Z","value":0},{"time":"2023-11-14T22:13:20Z","value":1},{"time":"1970-01-01T00:00:00Z","value":1}]'',
        headers = [(''Content-Type'', ''application/json'')],
        writes_left = None \<rparr>)
   \<and> stream_array sample_externals [] blank_writer =
     (Completed,
      \<lparr> written = ''[]'', headers = [(''Content-Type'', ''application/json'')],
        writes_left = None \<rparr>)\<close>
proof -
  have unlimited: "writes_left blank_writer = None"
    by (simp add: blank_writer_def)
  have few: "length (extracted sample_externals sample_rows) < 2 ^ 63"
    by (simp add: extracted_sample_rows)
  have items: \<open>map (\<lambda>dp. Marshal sample_externals (item_model sample_externals dp))
                 (extracted sample_externals sample_rows) =
               map Some [''{"time":"1970-01-01T00:00:00Z","value":0}'',
                         ''{"time":"2023-11-14T22:13:20Z","value":1}'',
                         ''{"time":"1970-01-01T00:00:00Z","value":1}'']\<close>
    by (simp add: extracted_sample_rows) (simp add: sample_externals_def item_model_def)
  have none: "map (\<lambda>dp. Marshal sample_externals (item_model sample_externals dp))
                 (extracted sample_externals []) = map Some []"
    by simp
  have few0: "length (extracted sample_externals []) < 2 ^ 63"
    by simp
  from stream_array_body [OF unlimited few items] stream_array_body [OF unlimited few0 none]
  show ?thesis
    by (simp add: blank_writer_def)
qed

text \<open>
  Claim C9. For every accepted or rejected record, the time under which the point is
  persisted is the producer's timestamp, not the received-at time; received-at is stored
  as an ordinary field next to value and tags.
\<close>

theorem Collect_persists_producer_time:
  assumes "usecase_Read js r = Inr dp"
  shows "\<exists>p. WritePoints_calls (snd (snd (Collect js r now_check now_recv client))) =
               WritePoints_calls client @ [[p]]
           \<and> Timestamp p = Value (dp_Time dp)
           \<and> PointTags p = []
           \<and> Fields p ''received_at'' = Some (FieldTime now_recv)
           \<and> Fields p ''value'' = Some (FieldFloat32 (Value (dp_Value dp)))
           \<and> Fields p ''tags'' = Some (FieldStrings (Value (dp_Tags dp)))
           \<and> dom (Fields p) = {''value'', ''tags'', ''received_at''}"
  by (simp add: Collect_decoded [OF assms] Let_def admitted_point_def) auto

theorem Collect_persists_producer_time_witness:
  \<open>usecase_Read wire_json (Response 200 (producer_body ''1700000000'')) =
     Inr \<lparr> dp_Time = \<lparr> Value = time_Unix 1700000000, Processed = True \<rparr>,
           dp_Value = \<lparr> Value = Float32frombits 0x4048F5C3, Processed = True \<rparr>,
           dp_Tags = \<lparr> Value = [''ok''], Processed = True \<rparr> \<rparr>
   \<and> (\<exists>p. WritePoints_calls (snd (snd
             (Collect wire_json (Response 200 (producer_body ''1700000000''))
                (time_Unix 1800000000) (time_Unix 1800000001) idle_client))) = [[p]]
          \<and> Measurement p = ''datapoint_discarded''
          \<and> Timestamp p = time_Unix 1700000000
          \<and> Fields p ''received_at'' = Some (FieldTime (time_Unix 1800000001)))\<close>
proof -
  from Collect_persists_producer_time [OF Read_bare_time, of "time_Unix 1800000000"
      "time_Unix 1800000001" idle_client]
  obtain p where calls: "WritePoints_calls (snd (snd
             (Collect wire_json (Response 200 (producer_body ''1700000000''))
                (time_Unix 1800000000) (time_Unix 1800000001) idle_client))) = [[p]]"
    and stamp: "Timestamp p = time_Unix 1700000000"
    and recv: "Fields p ''received_at'' = Some (FieldTime (time_Unix 1800000001))"
    by (auto simp add: idle_client_def)
  have "time_Unix 1700000000 < time_Unix 1800000000 - Hour"
    by (simp add: time_defs)
  then have "WritePoints_calls (snd (snd
             (Collect wire_json (Response 200 (producer_body ''1700000000''))
                (time_Unix 1800000000) (time_Unix 1800000001) idle_client))) =
        [[admitted_point ''datapoint_discarded''
            \<lparr> dp_Time = \<lparr> Value = time_Unix 1700000000, Processed = True \<rparr>,
              dp_Value = \<lparr> Value = Float32frombits 0x4048F5C3, Processed = True \<rparr>,
              dp_Tags = \<lparr> Value = [''ok''], Processed = True \<rparr> \<rparr> (time_Unix 1800000001)]]"
    by (simp add: Collect_decoded [OF Read_bare_time] Let_def idle_client_def)
  with calls have "p = admitted_point ''datapoint_discarded''
            \<lparr> dp_Time = \<lparr> Value = time_Unix 1700000000, Processed = True \<rparr>,
              dp_Value = \<lparr> Value = Float32frombits 0x4048F5C3, Processed = True \<rparr>,
              dp_Tags = \<lparr> Value = [''ok''], Processed = True \<rparr> \<rparr> (time_Unix 1800000001)"
    by simp
  then have "Measurement p = ''datapoint_discarded''"
    by (simp add: admitted_point_def)
  with calls stamp recv Read_bare_time show ?thesis
    by blast
qed

text \<open>
  Claim C10. \<open>Stop\<close> on a trigger whose synchronisation state is as \<open>reset\<close> left it (never
  started) returns without blocking and without a panic: the send finds room in the
  one-slot channel. It leaves the state as a \<open>reset\<close> leaves it, and a \<open>Start\<close> that follows
  runs as a new generation: its first task gets the new, uncancelled context and its
  listener waits on the new channel.
\<close>

theorem Stop_on_idle_trigger:
  assumes "fresh w" and "\<not> crashed w"
  shows "\<exists>w'. exec (Go_Stop # replicate 6 (Run (length (goroutines w)))) w = Some w'
           \<and> fresh w' \<and> \<not> crashed w'
           \<and> goroutines w' = goroutines w @ [Finished]
           \<and> trace w' = trace w @ [StopCalled, StopReturned]
           \<and> (\<exists>w''. exec (Go_Start # replicate 6 (Run (Suc (length (goroutines w))))
                          @ [Run (Suc (Suc (length (goroutines w))))]) w' = Some w''
                 \<and> trace w'' = trace w' @ [StartCalled, TaskBegin (triggerCtx (pt w')), TaskEnd]
                 \<and> \<not> ctxs w'' ! triggerCtx (pt w')
                 \<and> goroutines w'' = goroutines w' @
                      [LoopSelect (length (tickers w')) (Suc (length (chans w'))),
                       StopperSelect (stopCh (pt w')) (length (tickers w')) (Suc (length (chans w')))])"
  using assms
  by (simp add: trigger_defs fresh_def numeral_eq_Suc nth_append list_update_append)

theorem Stop_on_idle_trigger_witness:
  "fresh NewPeriodicTrigger \<and> \<not> crashed NewPeriodicTrigger
   \<and> (\<exists>w'. exec (Go_Stop # replicate 6 (Run 0)) NewPeriodicTrigger = Some w'
          \<and> fresh w' \<and> \<not> crashed w'
          \<and> goroutines w' = [Finished]
          \<and> trace w' = [StopCalled, StopReturned])"
proof -
  have idle: "fresh NewPeriodicTrigger" "\<not> crashed NewPeriodicTrigger"
    using fresh_NewPeriodicTrigger by simp_all
  have none: "goroutines NewPeriodicTrigger = []" "trace NewPeriodicTrigger = []"
    by (simp_all add: NewPeriodicTrigger_def reset_def)
  from Stop_on_idle_trigger [OF idle] idle none
  show ?thesis
    by auto
qed

end
